theory Spec2Isabelle
  imports Complex_Main
begin

section \<open>Points, features and patterns\<close>

text \<open>
  Python floats are modelled as the real numbers: every arithmetic operation of the source
  is taken to be exact. A feature centre is a triple of coordinates.
\<close>

type_synonym point = "real \<times> real \<times> real"

datatype py_error = ZeroDivisionError

fun px :: "point \<Rightarrow> real" where
  "px (x, y, z) = x"

fun py :: "point \<Rightarrow> real" where
  "py (x, y, z) = y"

fun pz :: "point \<Rightarrow> real" where
  "pz (x, y, z) = z"

text \<open>\<^verbatim>\<open>math.sqrt(sum((b[d] - a[d])**2 for d in range(3)))\<close>\<close>

definition dist3 :: "point \<Rightarrow> point \<Rightarrow> real" where
  "dist3 a b = sqrt ((px b - px a)\<^sup>2 + (py b - py a)\<^sup>2 + (pz b - pz a)\<^sup>2)"

text \<open>
  A machining feature as the pattern recogniser reads it: its id, the value of its type
  enumeration, and the \<^verbatim>\<open>'center'\<close> entry of its geometry dictionary, when present.
\<close>

record feature =
  feature_id :: int
  feature_type :: string
  geometry_center :: "point option"

datatype PatternType =
  LINEAR | CIRCULAR | GRID | MIRROR | HEXAGONAL | RADIAL | CONCENTRIC | SPIRAL
  | CUSTOM_PATH | RANDOM_SCATTER | IRREGULAR | ROTATIONAL_SYMMETRY | BILATERAL_SYMMETRY
  | POINT_SYMMETRY | PATH | NONE

text \<open>The \<^verbatim>\<open>direction\<close> field holds a unit vector (linear) or a 1-tuple with a plane name (mirror).\<close>

datatype direction_value = Vec point | PlaneName string

record FeaturePattern =
  pattern_type :: PatternType
  feature_ids :: "int list"
  pattern_count :: nat
  spacing :: real
  angle :: real
  center :: "point option"
  direction :: "direction_value option"
  confidence :: real

definition POSITION_TOLERANCE :: real where
  "POSITION_TOLERANCE = 1 / 2"

definition MIN_PATTERN_COUNT :: nat where
  "MIN_PATTERN_COUNT = 2"

definition get_feature_center :: "feature \<Rightarrow> point" where
  "get_feature_center f = (case geometry_center f of Some c \<Rightarrow> c | None \<Rightarrow> (0, 0, 0))"

section \<open>Linear patterns\<close>

definition distance_along_line :: "point \<Rightarrow> point \<Rightarrow> point \<Rightarrow> real" where
  "distance_along_line line_point dir test_point =
     (let dx = px test_point - px line_point;
          dy = py test_point - py line_point;
          dz = pz test_point - pz line_point
      in dx * px dir + dy * py dir + dz * pz dir)"

definition is_on_line :: "point \<Rightarrow> point \<Rightarrow> real \<Rightarrow> point \<Rightarrow> bool" where
  "is_on_line line_point dir sp test_point =
     (let dx = px test_point - px line_point;
          dy = py test_point - py line_point;
          dz = pz test_point - pz line_point;
          proj = dx * px dir + dy * py dir + dz * pz dir;
          closest_x = px line_point + proj * px dir;
          closest_y = py line_point + proj * py dir;
          closest_z = pz line_point + proj * pz dir;
          d = sqrt ((px test_point - closest_x)\<^sup>2 + (py test_point - closest_y)\<^sup>2
                    + (pz test_point - closest_z)\<^sup>2)
      in d < POSITION_TOLERANCE)"

text \<open>\<^verbatim>\<open>max(...)\<close> over a non-empty list, folding from the left as Python does.\<close>

fun max_list :: "real list \<Rightarrow> real" where
  "max_list [] = 0"
| "max_list (x # xs) = fold max xs x"

text \<open>The distances between consecutive members of the sorted index list.\<close>

fun consecutive_spacings :: "point list \<Rightarrow> nat list \<Rightarrow> real list" where
  "consecutive_spacings cs (a # b # rest) = dist3 (cs ! a) (cs ! b) # consecutive_spacings cs (b # rest)"
| "consecutive_spacings cs _ = []"

text \<open>
  The body of the inner loop of \<^verbatim>\<open>detect_linear_patterns\<close> for one pair \<open>(i, j)\<close>:
  \<open>Inr None\<close> when the pair yields no pattern (\<^verbatim>\<open>continue\<close> or a failed spacing check),
  \<open>Inr (Some (idxs, p))\<close> when pattern \<open>p\<close> over the feature indices \<open>idxs\<close> is appended,
  \<open>Inl e\<close> when the source raises.
\<close>

definition linear_candidate ::
  "feature list \<Rightarrow> point list \<Rightarrow> nat set \<Rightarrow> nat \<Rightarrow> nat
     \<Rightarrow> py_error + (nat list \<times> FeaturePattern) option" where
  "linear_candidate features centers used_features i j =
     (let dx = px (centers ! j) - px (centers ! i);
          dy = py (centers ! j) - py (centers ! i);
          dz = pz (centers ! j) - pz (centers ! i);
          sp = sqrt (dx\<^sup>2 + dy\<^sup>2 + dz\<^sup>2)
      in if sp < 1 / 10 then Inr None
         else
           let dir = (dx / sp, dy / sp, dz / sp);
               pattern_features = [i, j] @
                 filter (\<lambda>k. \<not> (k \<in> set [i, j] \<or> k \<in> used_features)
                              \<and> is_on_line (centers ! i) dir sp (centers ! k))
                        [0..<length features]
           in if length pattern_features \<ge> MIN_PATTERN_COUNT then
                let sorted = sort_key (\<lambda>idx. distance_along_line (centers ! i) dir (centers ! idx))
                                      pattern_features;
                    spacings = consecutive_spacings centers sorted
                in if spacings = [] then Inl ZeroDivisionError
                   else
                     let avg_spacing = sum_list spacings / real (length spacings);
                         max_deviation = max_list (map (\<lambda>s. \<bar>s - avg_spacing\<bar>) spacings)
                     in if max_deviation < POSITION_TOLERANCE then
                          if avg_spacing = 0 then Inl ZeroDivisionError
                          else
                            let ids = map (\<lambda>idx. feature_id (features ! idx)) sorted
                            in Inr (Some (sorted,
                                 \<lparr> pattern_type = LINEAR, feature_ids = ids,
                                   pattern_count = length ids, spacing = avg_spacing,
                                   angle = 0, center = None, direction = Some (Vec dir),
                                   confidence = 1 - max_deviation / avg_spacing \<rparr>))
                        else Inr None
              else Inr None)"

text \<open>
  The loop over \<open>j\<close>: the remaining values of \<open>j\<close> are the list argument. The state is the
  set of used indices and the patterns found so far; a found pattern ends the loop
  (\<^verbatim>\<open>break\<close>).
\<close>

fun linear_inner ::
  "feature list \<Rightarrow> point list \<Rightarrow> nat \<Rightarrow> nat list \<Rightarrow> nat set \<Rightarrow> FeaturePattern list
     \<Rightarrow> py_error + (nat set \<times> FeaturePattern list)" where
  "linear_inner features centers i [] used_features patterns = Inr (used_features, patterns)"
| "linear_inner features centers i (j # js) used_features patterns =
     (if j \<in> used_features then linear_inner features centers i js used_features patterns
      else case linear_candidate features centers used_features i j of
             Inl e \<Rightarrow> Inl e
           | Inr None \<Rightarrow> linear_inner features centers i js used_features patterns
           | Inr (Some (idxs, p)) \<Rightarrow> Inr (used_features \<union> set idxs, patterns @ [p]))"

fun linear_outer ::
  "feature list \<Rightarrow> point list \<Rightarrow> nat list \<Rightarrow> nat set \<Rightarrow> FeaturePattern list
     \<Rightarrow> py_error + FeaturePattern list" where
  "linear_outer features centers [] used_features patterns = Inr patterns"
| "linear_outer features centers (i # is) used_features patterns =
     (if i \<in> used_features then linear_outer features centers is used_features patterns
      else case linear_inner features centers i [i + 1..<length features] used_features patterns of
             Inl e \<Rightarrow> Inl e
           | Inr (used', patterns') \<Rightarrow> linear_outer features centers is used' patterns')"

definition detect_linear_patterns :: "feature list \<Rightarrow> py_error + FeaturePattern list" where
  "detect_linear_patterns features =
     (if length features < MIN_PATTERN_COUNT then Inr []
      else linear_outer features (map get_feature_center features) [0..<length features] {} [])"

section \<open>Circular patterns\<close>

definition calculate_circle_center_3d :: "point \<Rightarrow> point \<Rightarrow> point \<Rightarrow> point option" where
  "calculate_circle_center_3d p1 p2 p3 =
     (let x1 = px p1; y1 = py p1;
          x2 = px p2; y2 = py p2;
          x3 = px p3; y3 = py p3;
          d = 2 * (x1 * (y2 - y3) + x2 * (y3 - y1) + x3 * (y1 - y2))
      in if \<bar>d\<bar> < 1 / 1000 then None
         else
           let ux = ((x1\<^sup>2 + y1\<^sup>2) * (y2 - y3) + (x2\<^sup>2 + y2\<^sup>2) * (y3 - y1)
                     + (x3\<^sup>2 + y3\<^sup>2) * (y1 - y2)) / d;
               uy = ((x1\<^sup>2 + y1\<^sup>2) * (x3 - x2) + (x2\<^sup>2 + y2\<^sup>2) * (x1 - x3)
                     + (x3\<^sup>2 + y3\<^sup>2) * (x2 - x1)) / d;
               uz = (pz p1 + pz p2 + pz p3) / 3
           in Some (ux, uy, uz))"

text \<open>
  The body of the innermost loop of \<^verbatim>\<open>detect_circular_patterns\<close> for one triple:
  \<open>None\<close> when the triple is skipped, \<open>Some p\<close> when the pattern \<open>p\<close> is returned.
\<close>

definition circular_candidate ::
  "feature list \<Rightarrow> point list \<Rightarrow> nat \<Rightarrow> nat \<Rightarrow> nat \<Rightarrow> FeaturePattern option" where
  "circular_candidate features centers i j k =
     (case calculate_circle_center_3d (centers ! i) (centers ! j) (centers ! k) of
        None \<Rightarrow> None
      | Some circle_center \<Rightarrow>
          let radius = dist3 circle_center (centers ! i);
              pattern_features =
                fold (\<lambda>m pf. if m \<in> set pf then pf
                              else if \<bar>dist3 circle_center (centers ! m) - radius\<bar> < POSITION_TOLERANCE
                                   then pf @ [m] else pf)
                     [0..<length features] [i, j, k]
          in if length pattern_features \<ge> 3 then
               let avg_angle = (if length pattern_features > 0
                                then 360 / real (length pattern_features) else 0);
                   ids = map (\<lambda>idx. feature_id (features ! idx)) pattern_features
               in Some \<lparr> pattern_type = CIRCULAR, feature_ids = ids,
                          pattern_count = length ids, spacing = 0, angle = avg_angle,
                          center = Some circle_center, direction = None,
                          confidence = 9 / 10 \<rparr>
             else None)"

fun circular_k ::
  "feature list \<Rightarrow> point list \<Rightarrow> nat \<Rightarrow> nat \<Rightarrow> nat list \<Rightarrow> FeaturePattern option" where
  "circular_k features centers i j [] = None"
| "circular_k features centers i j (k # ks) =
     (case circular_candidate features centers i j k of
        Some p \<Rightarrow> Some p
      | None \<Rightarrow> circular_k features centers i j ks)"

fun circular_j ::
  "feature list \<Rightarrow> point list \<Rightarrow> nat \<Rightarrow> nat list \<Rightarrow> FeaturePattern option" where
  "circular_j features centers i [] = None"
| "circular_j features centers i (j # js) =
     (case circular_k features centers i j [j + 1..<length features] of
        Some p \<Rightarrow> Some p
      | None \<Rightarrow> circular_j features centers i js)"

fun circular_i ::
  "feature list \<Rightarrow> point list \<Rightarrow> nat list \<Rightarrow> FeaturePattern option" where
  "circular_i features centers [] = None"
| "circular_i features centers (i # is) =
     (case circular_j features centers i [i + 1..<length features] of
        Some p \<Rightarrow> Some p
      | None \<Rightarrow> circular_i features centers is)"

definition detect_circular_patterns :: "feature list \<Rightarrow> FeaturePattern list" where
  "detect_circular_patterns features =
     (if length features < 3 then []
      else case circular_i features (map get_feature_center features) [0..<length features] of
             Some p \<Rightarrow> [p]
           | None \<Rightarrow> [])"

section \<open>Grid patterns\<close>

text \<open>
  The dictionary of spacing groups, in insertion order: a value joins the first group whose
  key is within the tolerance, or opens a group of its own.
\<close>

fun add_to_groups :: "real \<Rightarrow> (real \<times> real list) list \<Rightarrow> (real \<times> real list) list" where
  "add_to_groups s [] = [(s, [s])]"
| "add_to_groups s ((key, vals) # gs) =
     (if \<bar>s - key\<bar> < POSITION_TOLERANCE then (key, vals @ [s]) # gs
      else (key, vals) # add_to_groups s gs)"

text \<open>\<^verbatim>\<open>max(groups, key=len)\<close>: the first group of maximal length.\<close>

fun max_by_len :: "real list list \<Rightarrow> real list" where
  "max_by_len [] = []"
| "max_by_len (g # gs) = fold (\<lambda>h best. if length h > length best then h else best) gs g"

definition find_dominant_spacing :: "real list \<Rightarrow> real option" where
  "find_dominant_spacing spacings =
     (if spacings = [] then None
      else
        let spacing_groups = fold add_to_groups spacings [];
            max_group = max_by_len (map snd spacing_groups)
        in if length max_group \<ge> 2 then Some (sum_list max_group / real (length max_group))
           else None)"

text \<open>Python truthiness of an optional float: \<^verbatim>\<open>None\<close> and \<^verbatim>\<open>0.0\<close> are false.\<close>

fun truthy :: "real option \<Rightarrow> bool" where
  "truthy None = False"
| "truthy (Some x) = (x \<noteq> 0)"

definition index_pairs :: "nat \<Rightarrow> (nat \<times> nat) list" where
  "index_pairs n = concat (map (\<lambda>i. map (\<lambda>j. (i, j)) [i + 1..<n]) [0..<n])"

definition grid_spacings :: "point list \<Rightarrow> real list \<times> real list" where
  "grid_spacings centers =
     fold (\<lambda>(i, j) (x_spacings, y_spacings).
             let dx = \<bar>px (centers ! j) - px (centers ! i)\<bar>;
                 dy = \<bar>py (centers ! j) - py (centers ! i)\<bar>;
                 dz = \<bar>pz (centers ! j) - pz (centers ! i)\<bar>
             in if dz < POSITION_TOLERANCE then
                  (if dx > 1 / 10 then x_spacings @ [dx] else x_spacings,
                   if dy > 1 / 10 then y_spacings @ [dy] else y_spacings)
                else (x_spacings, y_spacings))
          (index_pairs (length centers)) ([], [])"

definition detect_grid_patterns :: "feature list \<Rightarrow> FeaturePattern list" where
  "detect_grid_patterns features =
     (if length features < 4 then []
      else
        let centers = map get_feature_center features;
            (x_spacings, y_spacings) = grid_spacings centers
        in if x_spacings \<noteq> [] \<and> y_spacings \<noteq> [] then
             let x_spacing = find_dominant_spacing x_spacings;
                 y_spacing = find_dominant_spacing y_spacings
             in if truthy x_spacing \<and> truthy y_spacing then
                  let grid_features = [0..<length features]
                  in if length grid_features \<ge> 4 then
                       let ids = map (\<lambda>idx. feature_id (features ! idx)) grid_features
                       in [\<lparr> pattern_type = GRID, feature_ids = ids,
                              pattern_count = length ids,
                              spacing = min (the x_spacing) (the y_spacing), angle = 0,
                              center = None, direction = None, confidence = 8 / 10 \<rparr>]
                     else []
                else []
           else [])"

section \<open>Mirror patterns\<close>

fun flip :: "nat \<Rightarrow> point \<Rightarrow> point" where
  "flip flip_axis (x, y, z) =
     (if flip_axis = 0 then (- x, y, z)
      else if flip_axis = 1 then (x, - y, z)
      else (x, y, - z))"

text \<open>The search for the partner \<open>j\<close> of feature \<open>i\<close>: the first unused index within tolerance.\<close>

fun mirror_find :: "point list \<Rightarrow> point \<Rightarrow> nat list \<Rightarrow> nat set \<Rightarrow> nat option" where
  "mirror_find centers mirrored_pos [] used_indices = None"
| "mirror_find centers mirrored_pos (j # js) used_indices =
     (if j \<in> used_indices then mirror_find centers mirrored_pos js used_indices
      else if dist3 mirrored_pos (centers ! j) < POSITION_TOLERANCE then Some j
      else mirror_find centers mirrored_pos js used_indices)"

fun mirror_pairs ::
  "point list \<Rightarrow> nat \<Rightarrow> nat list \<Rightarrow> nat set \<Rightarrow> (nat \<times> nat) list \<Rightarrow> (nat \<times> nat) list" where
  "mirror_pairs centers flip_axis [] used_indices mirrored_pairs = mirrored_pairs"
| "mirror_pairs centers flip_axis (i # is) used_indices mirrored_pairs =
     (if i \<in> used_indices then mirror_pairs centers flip_axis is used_indices mirrored_pairs
      else case mirror_find centers (flip flip_axis (centers ! i)) [i + 1..<length centers]
                  used_indices of
             None \<Rightarrow> mirror_pairs centers flip_axis is used_indices mirrored_pairs
           | Some j \<Rightarrow> mirror_pairs centers flip_axis is (used_indices \<union> {i, j})
                         (mirrored_pairs @ [(i, j)]))"

definition mirror_planes :: "(string \<times> nat) list" where
  "mirror_planes = [(''XY'', 2), (''XZ'', 1), (''YZ'', 0)]"

definition mirror_plane_patterns ::
  "feature list \<Rightarrow> point list \<Rightarrow> string \<times> nat \<Rightarrow> FeaturePattern list" where
  "mirror_plane_patterns features centers plane =
     (let mirrored_pairs = mirror_pairs centers (snd plane) [0..<length features] {} []
      in if length mirrored_pairs \<ge> 1 then
           let ids = concat (map (\<lambda>(a, b). [feature_id (features ! a), feature_id (features ! b)])
                                 mirrored_pairs)
           in [\<lparr> pattern_type = MIRROR, feature_ids = ids, pattern_count = length ids,
                  spacing = 0, angle = 0, center = None,
                  direction = Some (PlaneName (fst plane)), confidence = 85 / 100 \<rparr>]
         else [])"

definition detect_mirror_patterns :: "feature list \<Rightarrow> FeaturePattern list" where
  "detect_mirror_patterns features =
     (if length features < 2 then []
      else concat (map (mirror_plane_patterns features (map get_feature_center features))
                       mirror_planes))"

section \<open>All patterns\<close>

text \<open>The dictionary from type value to features, in insertion order.\<close>

fun add_to_type_group ::
  "feature \<Rightarrow> (string \<times> feature list) list \<Rightarrow> (string \<times> feature list) list" where
  "add_to_type_group f [] = [(feature_type f, [f])]"
| "add_to_type_group f ((t, fl) # gs) =
     (if feature_type f = t then (t, fl @ [f]) # gs else (t, fl) # add_to_type_group f gs)"

definition group_features_by_type :: "feature list \<Rightarrow> (string \<times> feature list) list" where
  "group_features_by_type features = fold add_to_type_group features []"

fun recognize_groups ::
  "(string \<times> feature list) list \<Rightarrow> FeaturePattern list \<Rightarrow> py_error + FeaturePattern list" where
  "recognize_groups [] patterns = Inr patterns"
| "recognize_groups ((t, feature_list) # gs) patterns =
     (if length feature_list < MIN_PATTERN_COUNT then recognize_groups gs patterns
      else case detect_linear_patterns feature_list of
             Inl e \<Rightarrow> Inl e
           | Inr linear_patterns \<Rightarrow>
               recognize_groups gs
                 (patterns @ linear_patterns @ detect_circular_patterns feature_list
                  @ detect_grid_patterns feature_list @ detect_mirror_patterns feature_list))"

definition recognize_all_patterns :: "feature list \<Rightarrow> py_error + FeaturePattern list" where
  "recognize_all_patterns features = recognize_groups (group_features_by_type features) []"

section \<open>Adjacency analysis\<close>

record FeatureRelationship =
  feature1_id :: int
  feature2_id :: int
  relationship_type :: string
  strength :: real

definition proximity_threshold :: real where
  "proximity_threshold = 5"

definition calculate_distance :: "feature \<Rightarrow> feature \<Rightarrow> real" where
  "calculate_distance feat1 feat2 = 10"

definition check_containment :: "feature \<Rightarrow> feature \<Rightarrow> bool" where
  "check_containment feat1 feat2 = False"

definition check_overlap :: "feature \<Rightarrow> feature \<Rightarrow> bool" where
  "check_overlap feat1 feat2 = False"

text \<open>
  The body of the double loop of \<^verbatim>\<open>analyze_adjacency\<close> for one pair of enumerated
  features; the \<^verbatim>\<open>notes\<close> string of the relationship is not modelled.
\<close>

definition adjacency_step ::
  "nat \<times> feature \<Rightarrow> nat \<times> feature \<Rightarrow> FeatureRelationship list \<Rightarrow> FeatureRelationship list" where
  "adjacency_step e1 e2 relationships =
     (let i = fst e1; feat1 = snd e1; j = fst e2; feat2 = snd e2
      in if i \<ge> j then relationships
         else
           let distance = calculate_distance feat1 feat2;
               rel = (if distance < proximity_threshold
                      then Some (''adjacent'', 1 - distance / proximity_threshold)
                      else if check_containment feat1 feat2 then Some (''contained'', 1)
                      else if check_overlap feat1 feat2 then Some (''overlapping'', 8 / 10)
                      else None)
           in case rel of
                None \<Rightarrow> relationships
              | Some (rel_type, str) \<Rightarrow>
                  relationships @
                    [\<lparr> feature1_id = feature_id feat1, feature2_id = feature_id feat2,
                       relationship_type = rel_type, strength = str \<rparr>])"

definition analyze_adjacency :: "feature list \<Rightarrow> FeatureRelationship list" where
  "analyze_adjacency features =
     fold (\<lambda>e1 relationships. fold (adjacency_step e1) (enumerate 0 features) relationships)
          (enumerate 0 features) []"

text \<open>The loop over the relationships that grows the cluster of one feature.\<close>

definition cluster_step ::
  "int \<Rightarrow> FeatureRelationship \<Rightarrow> int list \<times> int set \<Rightarrow> int list \<times> int set" where
  "cluster_step fid rel st =
     (let cluster = fst st; visited = snd st
      in if feature1_id rel = fid \<and> feature2_id rel \<notin> visited
           then (cluster @ [feature2_id rel], insert (feature2_id rel) visited)
         else if feature2_id rel = fid \<and> feature1_id rel \<notin> visited
           then (cluster @ [feature1_id rel], insert (feature1_id rel) visited)
         else (cluster, visited))"

fun cluster_loop ::
  "FeatureRelationship list \<Rightarrow> feature list \<Rightarrow> int set \<Rightarrow> int list list \<Rightarrow> int list list" where
  "cluster_loop relationships [] visited clusters = clusters"
| "cluster_loop relationships (f # fs) visited clusters =
     (if feature_id f \<in> visited then cluster_loop relationships fs visited clusters
      else
        let (cluster, visited') =
              fold (cluster_step (feature_id f)) relationships
                   ([feature_id f], insert (feature_id f) visited)
        in cluster_loop relationships fs visited'
             (if length cluster > 1 then clusters @ [cluster] else clusters))"

definition find_feature_clusters :: "feature list \<Rightarrow> int list list" where
  "find_feature_clusters features = cluster_loop (analyze_adjacency features) features {} []"

section \<open>Fuzzy classification\<close>

text \<open>
  The property dictionary passed to \<^verbatim>\<open>fuzzy_classify\<close>: the keys it reads, each possibly
  absent.
\<close>

record feature_properties =
  prop_id :: "int option"
  depth :: "real option"
  diameter :: "real option"

record ClassificationResult =
  result_feature_id :: int
  primary_classification :: string
  classification_confidence :: real
  alternative_classifications :: "(string \<times> real) list"

definition aspect_ratio_of :: "feature_properties \<Rightarrow> py_error + real" where
  "aspect_ratio_of props =
     (let dep = (case depth props of Some v \<Rightarrow> v | None \<Rightarrow> 0);
          dia = (case diameter props of Some v \<Rightarrow> v | None \<Rightarrow> 1)
      in if dia + 1 / 1000 = 0 then Inl ZeroDivisionError
         else Inr (dep / (dia + 1 / 1000)))"

definition hole_membership :: "real \<Rightarrow> real" where
  "hole_membership aspect_ratio =
     (if aspect_ratio > 2 then 1
      else if aspect_ratio > 1 then (aspect_ratio - 1) / 1
      else 0)"

definition pocket_membership :: "real \<Rightarrow> real" where
  "pocket_membership aspect_ratio =
     (if aspect_ratio < 1 / 2 then 1
      else if aspect_ratio < 1 then (1 - aspect_ratio) / (1 / 2)
      else 0)"

text \<open>The \<^verbatim>\<open>memberships\<close> dictionary, in insertion order.\<close>

definition memberships_of :: "feature_properties \<Rightarrow> py_error + (string \<times> real) list" where
  "memberships_of props =
     (case aspect_ratio_of props of
        Inl e \<Rightarrow> Inl e
      | Inr aspect_ratio \<Rightarrow>
          Inr [(''hole'', hole_membership aspect_ratio),
               (''pocket'', pocket_membership aspect_ratio)])"

text \<open>\<^verbatim>\<open>max(items, key=lambda x: x[1])\<close>: the first item of maximal value.\<close>

fun max_by_value :: "(string \<times> real) list \<Rightarrow> string \<times> real" where
  "max_by_value [] = ([], 0)"
| "max_by_value (x # xs) = fold (\<lambda>y best. if snd y > snd best then y else best) xs x"

text \<open>
  \<^verbatim>\<open>fuzzy_classify\<close> without the \<^verbatim>\<open>reasoning\<close> strings. The descending sort of the
  alternatives is stable, as \<^verbatim>\<open>list.sort(reverse=True)\<close> is.
\<close>

definition fuzzy_classify :: "feature_properties \<Rightarrow> py_error + ClassificationResult" where
  "fuzzy_classify props =
     (case memberships_of props of
        Inl e \<Rightarrow> Inl e
      | Inr memberships \<Rightarrow>
          let primary = max_by_value memberships;
              alternatives = filter (\<lambda>(k, v). v > 3 / 10 \<and> k \<noteq> fst primary) memberships
          in Inr \<lparr> result_feature_id = (case prop_id props of Some n \<Rightarrow> n | None \<Rightarrow> 0),
                   primary_classification = fst primary,
                   classification_confidence = snd primary,
                   alternative_classifications = sort_key (\<lambda>(k, v). - v) alternatives \<rparr>)"

section \<open>Conical faces: draft angles and countersinks\<close>

text \<open>
  The faces of a shape in the order the topology explorer yields them. Of each face the
  adaptor reports the surface type; a cone carries its semi-angle (radians) and its
  reference radius, the only parameters the two functions below read.
\<close>

datatype surface =
  Plane | Cylinder | Cone (SemiAngle: real) (RefRadius: real) | Sphere | Torus
  | BSplineSurface | OtherSurface

text \<open>\<^verbatim>\<open>math.degrees\<close>\<close>

definition degrees :: "real \<Rightarrow> real" where
  "degrees x = x * (180 / pi)"

fun draft_loop :: "surface list \<Rightarrow> real list \<Rightarrow> real list" where
  "draft_loop [] draft_angles = draft_angles"
| "draft_loop (Cone semi_angle r # faces) draft_angles =
     draft_loop faces (draft_angles @ [degrees semi_angle])"
| "draft_loop (face # faces) draft_angles = draft_loop faces draft_angles"

definition measure_draft_angles :: "surface list \<Rightarrow> real list" where
  "measure_draft_angles shape = draft_loop shape []"

datatype AdvancedFeatureType = HOLE_THREADED | HOLE_COUNTERBORE | HOLE_COUNTERSINK

text \<open>The fields of an advanced feature that \<^verbatim>\<open>recognize_countersinks\<close> sets.\<close>

record AdvancedMachiningFeature =
  adv_feature_id :: int
  adv_feature_type :: AdvancedFeatureType
  adv_geometry :: surface
  adv_diameter :: real
  sink_angle :: real
  confidence_score :: real
  complexity_rating :: nat

text \<open>The loop over the faces; the state is the result list and the feature counter.\<close>

fun countersink_loop ::
  "surface list \<Rightarrow> AdvancedMachiningFeature list \<Rightarrow> int
     \<Rightarrow> AdvancedMachiningFeature list \<times> int" where
  "countersink_loop [] countersinks feature_counter = (countersinks, feature_counter)"
| "countersink_loop (Cone semi_angle ref_radius # faces) countersinks feature_counter =
     (let sink = degrees semi_angle * 2
      in if 75 < sink \<and> sink < 125 then
           countersink_loop faces
             (countersinks @
                [\<lparr> adv_feature_id = feature_counter, adv_feature_type = HOLE_COUNTERSINK,
                   adv_geometry = Cone semi_angle ref_radius, adv_diameter = 2 * ref_radius,
                   sink_angle = sink, confidence_score = 95 / 100, complexity_rating = 3 \<rparr>])
             (feature_counter + 1)
         else countersink_loop faces countersinks feature_counter)"
| "countersink_loop (face # faces) countersinks feature_counter =
     countersink_loop faces countersinks feature_counter"

definition recognize_countersinks ::
  "surface list \<Rightarrow> int \<Rightarrow> AdvancedMachiningFeature list \<times> int" where
  "recognize_countersinks shape feature_counter = countersink_loop shape [] feature_counter"

text \<open>
  The condition under which a face yields a countersink: a cone whose full angle lies
  strictly between 75 and 125 degrees.
\<close>

definition is_countersink_face :: "surface \<Rightarrow> bool" where
  "is_countersink_face f =
     (is_Cone f \<and> 75 < degrees (SemiAngle f) * 2 \<and> degrees (SemiAngle f) * 2 < 125)"

section \<open>The invariant of the linear search\<close>

text \<open>
  The invariant that the two loops of \<^verbatim>\<open>detect_linear_patterns\<close> maintain: the patterns found
  so far are the id lists of index lists that are pairwise disjoint, free of repetitions,
  within the bounds of the group, and made of indices already marked as used.
\<close>

definition linear_invariant :: "feature list \<Rightarrow> nat set \<Rightarrow> FeaturePattern list \<Rightarrow> bool" where
  "linear_invariant features used patterns =
     (\<exists>idxss. map feature_ids patterns = map (map (\<lambda>k. feature_id (features ! k))) idxss
        \<and> distinct (concat idxss) \<and> set (concat idxss) \<subseteq> used
        \<and> set (concat idxss) \<subseteq> {..<length features})"

section \<open>Adjacency analysis never relates two features\<close>

lemma adjacency_step_id: "adjacency_step e1 e2 rels = rels"
  by (simp add: adjacency_step_def calculate_distance_def proximity_threshold_def
        check_containment_def check_overlap_def Let_def)

lemma fold_adjacency_inner: "fold (adjacency_step e1) xs rels = rels"
  by (induction xs arbitrary: rels) (simp_all add: adjacency_step_id)

lemma fold_adjacency_outer:
  "fold (\<lambda>e1 rels. fold (adjacency_step e1) ys rels) xs rels = rels"
  by (induction xs arbitrary: rels) (simp_all add: fold_adjacency_inner)

lemma analyze_adjacency_empty: "analyze_adjacency features = []"
  by (simp add: analyze_adjacency_def fold_adjacency_outer)

lemma cluster_loop_no_relationships: "cluster_loop [] fs visited clusters = clusters"
  by (induction fs arbitrary: visited clusters) simp_all

text \<open>
  Claim C8. For every feature list, \<^verbatim>\<open>analyze_adjacency\<close> returns the empty list and
  \<^verbatim>\<open>find_feature_clusters\<close> returns no cluster: the distance is the constant 10, never
  below the threshold 5, and the containment and overlap checks are constantly false.
\<close>

theorem no_relationships_no_clusters:
  "analyze_adjacency features = [] \<and> find_feature_clusters features = []"
  by (simp add: find_feature_clusters_def analyze_adjacency_empty cluster_loop_no_relationships)

section \<open>Draft angles\<close>

lemma draft_loop_acc:
  "draft_loop shape acc = acc @ map (\<lambda>f. degrees (SemiAngle f)) (filter is_Cone shape)"
proof (induction shape arbitrary: acc)
  case Nil
  then show ?case by simp
next
  case (Cons f fs)
  then show ?case by (cases f) simp_all
qed

text \<open>
  Claim C4, as amended. \<^verbatim>\<open>measure_draft_angles\<close> returns one entry per conical face, in face
  order, and the entry is the cone's semi-angle converted to degrees (not twice it).
\<close>

theorem measure_draft_angles_semi_angle:
  "measure_draft_angles shape = map (\<lambda>f. degrees (SemiAngle f)) (filter is_Cone shape)"
  by (simp add: measure_draft_angles_def draft_loop_acc)

text \<open>
  Claim C4 as stated fails: for a single cone of semi-angle \<open>pi / 4\<close> the entry is 45,
  while twice the semi-angle in degrees is 90.
\<close>

theorem measure_draft_angles_not_doubled:
  "measure_draft_angles [Cone (pi / 4) 5] = [45]
   \<and> measure_draft_angles [Cone (pi / 4) 5] \<noteq> [2 * degrees (pi / 4)]"
  by (simp add: measure_draft_angles_def degrees_def)

section \<open>Fuzzy classification\<close>

lemma hole_membership_mono: "a \<le> b \<Longrightarrow> hole_membership a \<le> hole_membership b"
  by (auto simp: hole_membership_def)

lemma pocket_membership_antimono: "a \<le> b \<Longrightarrow> pocket_membership b \<le> pocket_membership a"
  by (auto simp: pocket_membership_def)

lemma memberships_of_present:
  "0 < dia \<Longrightarrow>
   memberships_of \<lparr>prop_id = n, depth = Some dep, diameter = Some dia\<rparr> =
     Inr [(''hole'', hole_membership (dep / (dia + 1 / 1000))),
          (''pocket'', pocket_membership (dep / (dia + 1 / 1000)))]"
  by (simp add: memberships_of_def aspect_ratio_of_def)

text \<open>
  Claim C6. For a fixed positive diameter, the hole membership computed by
  \<^verbatim>\<open>fuzzy_classify\<close> is non-decreasing in the depth and the pocket membership is
  non-increasing in the depth; the classification returns without raising.
\<close>

theorem fuzzy_membership_monotone:
  assumes "0 < dia" and "dep1 \<le> dep2"
  shows "\<exists>h1 p1 h2 p2.
           memberships_of \<lparr>prop_id = n, depth = Some dep1, diameter = Some dia\<rparr>
             = Inr [(''hole'', h1), (''pocket'', p1)]
         \<and> memberships_of \<lparr>prop_id = n, depth = Some dep2, diameter = Some dia\<rparr>
             = Inr [(''hole'', h2), (''pocket'', p2)]
         \<and> h1 \<le> h2 \<and> p2 \<le> p1
         \<and> isl (fuzzy_classify \<lparr>prop_id = n, depth = Some dep1, diameter = Some dia\<rparr>) = False"
proof -
  from assms have le: "dep1 / (dia + 1 / 1000) \<le> dep2 / (dia + 1 / 1000)"
    by (simp add: divide_right_mono)
  show ?thesis
    using assms(1) hole_membership_mono [OF le] pocket_membership_antimono [OF le]
    by (simp add: memberships_of_present fuzzy_classify_def Let_def)
qed

theorem fuzzy_membership_monotone_witness:
  "(0::real) < 10 \<and> (15::real) \<le> 25 \<and>
   (\<exists>h1 p1 h2 p2.
           memberships_of \<lparr>prop_id = Some 1, depth = Some 15, diameter = Some 10\<rparr>
             = Inr [(''hole'', h1), (''pocket'', p1)]
         \<and> memberships_of \<lparr>prop_id = Some 1, depth = Some 25, diameter = Some 10\<rparr>
             = Inr [(''hole'', h2), (''pocket'', p2)]
         \<and> h1 \<le> h2 \<and> p2 \<le> p1
         \<and> isl (fuzzy_classify \<lparr>prop_id = Some 1, depth = Some 15, diameter = Some 10\<rparr>) = False)"
  using fuzzy_membership_monotone [of 10 15 25 "Some 1"] by simp

section \<open>Countersinks\<close>

lemma countersink_loop_geometry:
  "map adv_geometry (fst (countersink_loop shape acc c)) =
     map adv_geometry acc @ filter is_countersink_face shape"
proof (induction shape arbitrary: acc c)
  case Nil
  then show ?case by simp
next
  case (Cons f fs)
  then show ?case by (cases f) (simp_all add: Let_def is_countersink_face_def)
qed

lemma countersink_loop_angle:
  "map sink_angle (fst (countersink_loop shape acc c)) =
     map sink_angle acc @ map (\<lambda>f. degrees (SemiAngle f) * 2) (filter is_countersink_face shape)"
proof (induction shape arbitrary: acc c)
  case Nil
  then show ?case by simp
next
  case (Cons f fs)
  then show ?case by (cases f) (simp_all add: Let_def is_countersink_face_def)
qed

text \<open>
  Claim C7, as amended. \<^verbatim>\<open>recognize_countersinks\<close> emits a countersink feature for a face
  if and only if the face is conical and its full angle (twice the semi-angle, in degrees)
  lies strictly between 75 and 125: the emitted features are, in order, exactly those
  faces, each with that full angle as its sink angle.
\<close>

theorem countersink_open_interval:
  "map adv_geometry (fst (recognize_countersinks shape c)) = filter is_countersink_face shape
   \<and> map sink_angle (fst (recognize_countersinks shape c)) =
       map (\<lambda>f. degrees (SemiAngle f) * 2) (filter is_countersink_face shape)
   \<and> (fst (recognize_countersinks [f] c) \<noteq> []) =
       (is_Cone f \<and> 75 < degrees (SemiAngle f) * 2 \<and> degrees (SemiAngle f) * 2 < 125)"
  apply (simp add: recognize_countersinks_def countersink_loop_geometry countersink_loop_angle)
  apply (cases f)
  apply (simp_all add: Let_def)
  done

text \<open>
  Claim C7 as stated fails at both boundaries: a cone whose full angle is exactly 75
  degrees, or exactly 125 degrees, yields no countersink.
\<close>

theorem countersink_boundary_excluded:
  "degrees (5 * pi / 24) * 2 = 75 \<and> fst (recognize_countersinks [Cone (5 * pi / 24) 3] 0) = []
   \<and> degrees (25 * pi / 72) * 2 = 125 \<and> fst (recognize_countersinks [Cone (25 * pi / 72) 3] 0) = []"
  by (simp add: recognize_countersinks_def degrees_def Let_def)

section \<open>Linear patterns on concrete groups\<close>

lemma upt_small:
  "[0..<2] = [0, 1]" "[1..<2] = [1]" "[2..<2] = []"
  "[0..<3] = [0, 1, 2]" "[1..<3] = [1, 2]" "[2..<3] = [2]" "[3..<3] = []"
  "[0..<4] = [0, 1, 2, 3]" "[1..<4] = [1, 2, 3]" "[2..<4] = [2, 3]" "[3..<4] = [3]"
  "[4..<4] = []"
  "[0..<6] = [0, 1, 2, 3, 4, 5]" "[1..<6] = [1, 2, 3, 4, 5]" "[2..<6] = [2, 3, 4, 5]"
  by (simp_all add: upt_rec)

lemmas linear_eval =
  detect_linear_patterns_def MIN_PATTERN_COUNT_def get_feature_center_def
  linear_candidate_def is_on_line_def distance_along_line_def POSITION_TOLERANCE_def
  dist3_def Let_def

lemmas all_eval =
  recognize_all_patterns_def group_features_by_type_def
  detect_circular_patterns_def detect_grid_patterns_def detect_mirror_patterns_def
  mirror_planes_def mirror_plane_patterns_def

text \<open>
  Claim C3. Four features with centres at x = 0, 10, 20, 30 on the x axis give exactly one
  linear pattern, over all four ids, with spacing 10 and confidence 1 (greater than 0.95).
\<close>

theorem linear_scenario_four_holes:
  "detect_linear_patterns
     [\<lparr>feature_id = a, feature_type = t, geometry_center = Some (0, 0, 0)\<rparr>,
      \<lparr>feature_id = b, feature_type = t, geometry_center = Some (10, 0, 0)\<rparr>,
      \<lparr>feature_id = c, feature_type = t, geometry_center = Some (20, 0, 0)\<rparr>,
      \<lparr>feature_id = d, feature_type = t, geometry_center = Some (30, 0, 0)\<rparr>] =
   Inr [\<lparr>pattern_type = LINEAR, feature_ids = [a, b, c, d], pattern_count = 4, spacing = 10,
         angle = 0, center = None, direction = Some (Vec (1, 0, 0)), confidence = 1\<rparr>]
   \<and> length [a, b, c, d] = 4 \<and> (95 / 100 :: real) < 1"
  by (simp add: linear_eval upt_small)

text \<open>
  Claim C1 fails on the code. Four collinear features at x = 0, 1/8, 1/4, 1 have the
  consecutive spacings 1/8, 1/8, 3/4: the mean is 1/3, the largest deviation 5/12 is below
  the tolerance 1/2, so the pattern is accepted, with confidence 1 - (5/12)/(1/3) = -1/4.
\<close>

theorem linear_confidence_negative:
  "detect_linear_patterns
     [\<lparr>feature_id = 1, feature_type = ''Through Hole'', geometry_center = Some (0, 0, 0)\<rparr>,
      \<lparr>feature_id = 2, feature_type = ''Through Hole'', geometry_center = Some (1 / 8, 0, 0)\<rparr>,
      \<lparr>feature_id = 3, feature_type = ''Through Hole'', geometry_center = Some (1 / 4, 0, 0)\<rparr>,
      \<lparr>feature_id = 4, feature_type = ''Through Hole'', geometry_center = Some (1, 0, 0)\<rparr>] =
   Inr [\<lparr>pattern_type = LINEAR, feature_ids = [1, 2, 3, 4], pattern_count = 4,
         spacing = 1 / 3, angle = 0, center = None, direction = Some (Vec (1, 0, 0)),
         confidence = - 1 / 4\<rparr>]"
  by (simp add: linear_eval upt_small)

text \<open>
  Claim C2 fails on the code. Two features of one type at (10, 0, 0) and (-10, 0, 0) are
  returned both in a linear pattern and in a mirror pattern (plane YZ): every detector
  runs on the whole group and the results are concatenated.
\<close>

theorem feature_in_two_patterns:
  "recognize_all_patterns
     [\<lparr>feature_id = 1, feature_type = ''Through Hole'', geometry_center = Some (10, 0, 0)\<rparr>,
      \<lparr>feature_id = 2, feature_type = ''Through Hole'', geometry_center = Some (- 10, 0, 0)\<rparr>] =
   Inr [\<lparr>pattern_type = LINEAR, feature_ids = [1, 2], pattern_count = 2, spacing = 20,
         angle = 0, center = None, direction = Some (Vec (- 1, 0, 0)), confidence = 1\<rparr>,
        \<lparr>pattern_type = MIRROR, feature_ids = [1, 2], pattern_count = 2, spacing = 0,
         angle = 0, center = None, direction = Some (PlaneName ''YZ''),
         confidence = 85 / 100\<rparr>]"
  by (simp add: all_eval linear_eval upt_small)

section \<open>Two features always form a linear pattern\<close>

lemma projection_of_seed:
  fixes dx dy dz :: real
  assumes "0 < sqrt (dx\<^sup>2 + dy\<^sup>2 + dz\<^sup>2)"
  shows "dx * (dx / sqrt (dx\<^sup>2 + dy\<^sup>2 + dz\<^sup>2)) + dy * (dy / sqrt (dx\<^sup>2 + dy\<^sup>2 + dz\<^sup>2))
         + dz * (dz / sqrt (dx\<^sup>2 + dy\<^sup>2 + dz\<^sup>2)) = sqrt (dx\<^sup>2 + dy\<^sup>2 + dz\<^sup>2)"
proof -
  let ?s = "sqrt (dx\<^sup>2 + dy\<^sup>2 + dz\<^sup>2)"
  have nonneg: "0 \<le> dx\<^sup>2 + dy\<^sup>2 + dz\<^sup>2" by simp
  have sq: "?s * ?s = dx\<^sup>2 + dy\<^sup>2 + dz\<^sup>2"
    using nonneg by simp
  have "dx * (dx / ?s) + dy * (dy / ?s) + dz * (dz / ?s) = (dx\<^sup>2 + dy\<^sup>2 + dz\<^sup>2) / ?s"
    by (simp add: power2_eq_square add_divide_distrib)
  also have "\<dots> = ?s"
    using assms sq by (metis less_irrefl nonzero_mult_div_cancel_left)
  finally show ?thesis .
qed

lemma linear_candidate_pair:
  assumes far: "1 / 10 \<le> dist3 c1 c2"
  shows "linear_candidate [f1, f2] [c1, c2] {} 0 1 =
     Inr (Some ([0, 1],
       \<lparr> pattern_type = LINEAR, feature_ids = [feature_id f1, feature_id f2],
         pattern_count = 2, spacing = dist3 c1 c2, angle = 0, center = None,
         direction = Some (Vec ((px c2 - px c1) / dist3 c1 c2, (py c2 - py c1) / dist3 c1 c2,
                                (pz c2 - pz c1) / dist3 c1 c2)),
         confidence = 1 \<rparr>))"
proof -
  let ?dx = "px c2 - px c1" and ?dy = "py c2 - py c1" and ?dz = "pz c2 - pz c1"
  let ?s = "sqrt (?dx\<^sup>2 + ?dy\<^sup>2 + ?dz\<^sup>2)"
  have s: "dist3 c1 c2 = ?s" by (simp add: dist3_def)
  have ge: "1 / 10 \<le> ?s" using far unfolding s .
  have pos: "0 < ?s" and notless: "\<not> ?s < 1 / 10" using ge by linarith+
  have key: "?dx * (?dx / ?s) + ?dy * (?dy / ?s) + ?dz * (?dz / ?s) = ?s"
    by (rule projection_of_seed [OF pos])
  have srt: "sort_key (\<lambda>idx. distance_along_line ([c1, c2] ! 0) (?dx / ?s, ?dy / ?s, ?dz / ?s)
                ([c1, c2] ! idx)) [0, 1] = [0, Suc 0]"
    using pos by (simp add: distance_along_line_def key)
  have nz: "?s \<noteq> 0" using pos by linarith
  show ?thesis
    unfolding linear_candidate_def Let_def
    using notless nz srt
    by (simp add: upt_small MIN_PATTERN_COUNT_def POSITION_TOLERANCE_def s)
qed

text \<open>
  Claim C9. A group of exactly two features whose centres are at least 0.1 apart yields
  exactly one linear pattern, over both ids, whose spacing is the distance of the centres
  and whose confidence is 1.
\<close>

theorem two_features_linear_pattern:
  assumes "1 / 10 \<le> dist3 (get_feature_center f1) (get_feature_center f2)"
  shows "\<exists>p. detect_linear_patterns [f1, f2] = Inr [p]
           \<and> pattern_type p = LINEAR
           \<and> feature_ids p = [feature_id f1, feature_id f2]
           \<and> pattern_count p = 2
           \<and> spacing p = dist3 (get_feature_center f1) (get_feature_center f2)
           \<and> confidence p = 1"
  using linear_candidate_pair [OF assms, of f1 f2]
  by (simp add: detect_linear_patterns_def MIN_PATTERN_COUNT_def upt_small)

theorem two_features_linear_pattern_witness:
  "1 / 10 \<le> dist3 (get_feature_center \<lparr>feature_id = 7, feature_type = ''Through Hole'', geometry_center = Some (0, 0, 0)\<rparr>)
                    (get_feature_center \<lparr>feature_id = 9, feature_type = ''Through Hole'', geometry_center = Some (3, 4, 0)\<rparr>)
   \<and> (\<exists>p. detect_linear_patterns
             [\<lparr>feature_id = 7, feature_type = ''Through Hole'', geometry_center = Some (0, 0, 0)\<rparr>,
              \<lparr>feature_id = 9, feature_type = ''Through Hole'', geometry_center = Some (3, 4, 0)\<rparr>] = Inr [p]
           \<and> pattern_type p = LINEAR
           \<and> feature_ids p = [7, 9]
           \<and> pattern_count p = 2
           \<and> spacing p = 5
           \<and> confidence p = 1)"
proof -
  have d: "dist3 (0, 0, 0) (3, 4, 0) = 5"
    by (simp add: dist3_def real_sqrt_unique)
  show ?thesis
    using two_features_linear_pattern
      [of "\<lparr>feature_id = 7, feature_type = ''Through Hole'', geometry_center = Some (0, 0, 0)\<rparr>"
          "\<lparr>feature_id = 9, feature_type = ''Through Hole'', geometry_center = Some (3, 4, 0)\<rparr>"]
    by (simp add: get_feature_center_def d)
qed

section \<open>Features without a centre\<close>

lemma linear_candidate_coincident:
  assumes "centers ! i = centers ! j"
  shows "linear_candidate features centers used i j = Inr None"
  using assms by (simp add: linear_candidate_def)

lemma linear_inner_coincident:
  assumes "\<forall>j\<in>set js. centers ! i = centers ! j"
  shows "linear_inner features centers i js used patterns = Inr (used, patterns)"
  using assms by (induction js) (simp_all add: linear_candidate_coincident)

lemma linear_outer_coincident:
  assumes "\<forall>i\<in>set xs. \<forall>j\<in>set [i + 1..<length features]. centers ! i = centers ! j"
  shows "linear_outer features centers xs used patterns = Inr patterns"
  using assms by (induction xs) (simp_all add: linear_inner_coincident)

lemma centerless_group_no_linear_pattern:
  assumes "\<forall>f\<in>set features. geometry_center f = None"
  shows "detect_linear_patterns features = Inr []"
proof -
  have origin: "get_feature_center (features ! i) = (0, 0, 0)" if "i < length features" for i
    using that assms by (simp add: get_feature_center_def)
  have "linear_outer features (map get_feature_center features) [0..<length features] {} [] = Inr []"
    by (rule linear_outer_coincident) (auto simp: origin)
  then show ?thesis by (simp add: detect_linear_patterns_def)
qed

text \<open>
  Claim C10, as amended. A feature whose geometry has no centre is placed at the origin.
  Two such features are at distance 0, below the minimum 0.1: wherever they stand in a
  group, the pair \<open>(i, j)\<close> they form is skipped as the start of a linear pattern; a group
  made of the two alone yields no linear pattern, and neither does any group in which no
  feature has a centre.
\<close>

theorem centerless_pair_never_seeds_pattern:
  assumes "geometry_center fa = None" and "geometry_center fb = None"
    and "i < length features" and "j < length features"
    and "features ! i = fa" and "features ! j = fb"
  shows "get_feature_center fa = (0, 0, 0) \<and> get_feature_center fb = (0, 0, 0)
         \<and> dist3 (get_feature_center fa) (get_feature_center fb) < 1 / 10
         \<and> linear_candidate features (map get_feature_center features) used i j = Inr None
         \<and> detect_linear_patterns [fa, fb] = Inr []
         \<and> ((\<forall>f\<in>set features. geometry_center f = None)
              \<longrightarrow> detect_linear_patterns features = Inr [])"
  using assms
  by (simp add: get_feature_center_def dist3_def linear_candidate_coincident
        centerless_group_no_linear_pattern
        detect_linear_patterns_def [of "[fa, fb]"] MIN_PATTERN_COUNT_def upt_small)

theorem centerless_pair_never_seeds_pattern_witness:
  "geometry_center \<lparr>feature_id = 1, feature_type = ''Slot'', geometry_center = None\<rparr> = None
   \<and> get_feature_center \<lparr>feature_id = 1, feature_type = ''Slot'', geometry_center = None\<rparr> = (0, 0, 0)
   \<and> detect_linear_patterns
       [\<lparr>feature_id = 1, feature_type = ''Slot'', geometry_center = None\<rparr>,
        \<lparr>feature_id = 2, feature_type = ''Slot'', geometry_center = None\<rparr>] = Inr []
   \<and> linear_candidate
       [\<lparr>feature_id = 1, feature_type = ''Slot'', geometry_center = None\<rparr>,
        \<lparr>feature_id = 3, feature_type = ''Slot'', geometry_center = Some (5, 0, 0)\<rparr>,
        \<lparr>feature_id = 2, feature_type = ''Slot'', geometry_center = None\<rparr>]
       (map get_feature_center
         [\<lparr>feature_id = 1, feature_type = ''Slot'', geometry_center = None\<rparr>,
          \<lparr>feature_id = 3, feature_type = ''Slot'', geometry_center = Some (5, 0, 0)\<rparr>,
          \<lparr>feature_id = 2, feature_type = ''Slot'', geometry_center = None\<rparr>])
       {} 0 2 = Inr None
   \<and> list_all (\<lambda>f. geometry_center f = None)
       [\<lparr>feature_id = 1, feature_type = ''Slot'', geometry_center = None\<rparr>,
        \<lparr>feature_id = 2, feature_type = ''Slot'', geometry_center = None\<rparr>,
        \<lparr>feature_id = 4, feature_type = ''Slot'', geometry_center = None\<rparr>]
   \<and> detect_linear_patterns
       [\<lparr>feature_id = 1, feature_type = ''Slot'', geometry_center = None\<rparr>,
        \<lparr>feature_id = 2, feature_type = ''Slot'', geometry_center = None\<rparr>,
        \<lparr>feature_id = 4, feature_type = ''Slot'', geometry_center = None\<rparr>] = Inr []"
  using centerless_pair_never_seeds_pattern
    [where fa = "\<lparr>feature_id = 1, feature_type = ''Slot'', geometry_center = None\<rparr>"
       and fb = "\<lparr>feature_id = 2, feature_type = ''Slot'', geometry_center = None\<rparr>"
       and features = "[\<lparr>feature_id = 1, feature_type = ''Slot'', geometry_center = None\<rparr>,
          \<lparr>feature_id = 3, feature_type = ''Slot'', geometry_center = Some (5, 0, 0)\<rparr>,
          \<lparr>feature_id = 2, feature_type = ''Slot'', geometry_center = None\<rparr>]"
       and i = 0 and j = 2 and used = "{}"]
    centerless_pair_never_seeds_pattern
    [where fa = "\<lparr>feature_id = 1, feature_type = ''Slot'', geometry_center = None\<rparr>"
       and fb = "\<lparr>feature_id = 2, feature_type = ''Slot'', geometry_center = None\<rparr>"
       and features = "[\<lparr>feature_id = 1, feature_type = ''Slot'', geometry_center = None\<rparr>,
          \<lparr>feature_id = 2, feature_type = ''Slot'', geometry_center = None\<rparr>,
          \<lparr>feature_id = 4, feature_type = ''Slot'', geometry_center = None\<rparr>]"
       and i = 0 and j = 1 and used = "{}"]
  by (simp add: get_feature_center_def)

text \<open>
  Claim C10 fails on the code as it is worded: two centre-less features can be members of
  one linear pattern that another pair starts. With a third centre at (2/5, 0, 0) the pair
  (first, third) starts a pattern, the loop over \<open>k\<close> collects the second centre-less
  feature, and the spacings 0 and 2/5 pass the spacing check: the pattern holds the ids
  1, 2 and 3.
\<close>

theorem centerless_features_share_a_pattern:
  "detect_linear_patterns
     [\<lparr>feature_id = 1, feature_type = ''Slot'', geometry_center = None\<rparr>,
      \<lparr>feature_id = 2, feature_type = ''Slot'', geometry_center = None\<rparr>,
      \<lparr>feature_id = 3, feature_type = ''Slot'', geometry_center = Some (2 / 5, 0, 0)\<rparr>] =
   Inr [\<lparr>pattern_type = LINEAR, feature_ids = [1, 2, 3], pattern_count = 3, spacing = 1 / 5,
         angle = 0, center = None, direction = Some (Vec (1, 0, 0)), confidence = 0\<rparr>]"
  by (simp add: linear_eval upt_small)

section \<open>Circular patterns\<close>















section \<open>Patterns of one type do not overlap\<close>

lemma linear_candidate_indices:
  assumes "linear_candidate features centers used i j = Inr (Some (idxs, p))"
    and "i \<noteq> j" and "i \<notin> used" and "j \<notin> used"
    and "i < length features" and "j < length features"
  shows "feature_ids p = map (\<lambda>k. feature_id (features ! k)) idxs
         \<and> distinct idxs \<and> set idxs \<inter> used = {} \<and> set idxs \<subseteq> {..<length features}"
  using assms unfolding linear_candidate_def Let_def
  by (auto simp del: sort_key_simps split: if_splits)

lemma linear_invariant_extend:
  assumes "linear_invariant features used pats"
    and "feature_ids p = map (\<lambda>k. feature_id (features ! k)) idxs"
    and "distinct idxs" and "set idxs \<inter> used = {}" and "set idxs \<subseteq> {..<length features}"
  shows "linear_invariant features (used \<union> set idxs) (pats @ [p])"
proof -
  from assms(1) obtain idxss where
    a: "map feature_ids pats = map (map (\<lambda>k. feature_id (features ! k))) idxss"
    and b: "distinct (concat idxss)" and c: "set (concat idxss) \<subseteq> used"
    and d: "set (concat idxss) \<subseteq> {..<length features}"
    unfolding linear_invariant_def by blast
  have "map feature_ids (pats @ [p]) = map (map (\<lambda>k. feature_id (features ! k))) (idxss @ [idxs])"
    using a assms(2) by simp
  moreover have "distinct (concat (idxss @ [idxs]))"
    using b c assms(3,4) by auto
  moreover have "set (concat (idxss @ [idxs])) \<subseteq> used \<union> set idxs"
    using c by auto
  moreover have "set (concat (idxss @ [idxs])) \<subseteq> {..<length features}"
    using d assms(5) by auto
  ultimately show ?thesis unfolding linear_invariant_def by blast
qed

lemma linear_inner_invariant:
  assumes "linear_inner features centers i js used pats = Inr (used', pats')"
    and "linear_invariant features used pats"
    and "i \<notin> used" and "i < length features"
    and "\<forall>j\<in>set js. j \<noteq> i \<and> j < length features"
  shows "linear_invariant features used' pats'"
  using assms
proof (induction js)
  case Nil
  then show ?case by simp
next
  case (Cons j js)
  show ?case
  proof (cases "j \<in> used")
    case True
    with Cons show ?thesis by simp
  next
    case False
    show ?thesis
    proof (cases "linear_candidate features centers used i j")
      case (Inl e)
      with Cons.prems(1) False show ?thesis by simp
    next
      case (Inr r)
      show ?thesis
      proof (cases r)
        case None
        with Inr False Cons show ?thesis by simp
      next
        case (Some ip)
        obtain idxs p where ip: "ip = (idxs, p)" by (cases ip)
        from Cons.prems(1) False Inr Some ip
        have eq: "used' = used \<union> set idxs" "pats' = pats @ [p]" by simp_all
        from Cons.prems(5) have ij: "i \<noteq> j" and jn: "j < length features" by auto
        from Inr Some ip
        have cand: "linear_candidate features centers used i j = Inr (Some (idxs, p))" by simp
        from linear_candidate_indices [OF cand ij Cons.prems(3) False Cons.prems(4) jn]
        have "feature_ids p = map (\<lambda>k. feature_id (features ! k)) idxs"
          and "distinct idxs" and "set idxs \<inter> used = {}"
          and "set idxs \<subseteq> {..<length features}" by simp_all
        from linear_invariant_extend [OF Cons.prems(2) this]
        show ?thesis unfolding eq .
      qed
    qed
  qed
qed

lemma linear_outer_invariant:
  assumes "linear_outer features centers xs used pats = Inr ps"
    and "linear_invariant features used pats"
    and "\<forall>i\<in>set xs. i < length features"
  shows "\<exists>used'. linear_invariant features used' ps"
  using assms
proof (induction xs arbitrary: used pats)
  case Nil
  then show ?case by auto
next
  case (Cons i xs)
  from Cons.prems(3) have rest_bound: "\<forall>i\<in>set xs. i < length features" by simp
  show ?case
  proof (cases "i \<in> used")
    case True
    with Cons.prems(1) have "linear_outer features centers xs used pats = Inr ps" by simp
    from Cons.IH [OF this Cons.prems(2) rest_bound] show ?thesis .
  next
    case False
    show ?thesis
    proof (cases "linear_inner features centers i [i + 1..<length features] used pats")
      case (Inl e)
      with Cons.prems(1) False show ?thesis by simp
    next
      case (Inr r)
      obtain u' p' where r: "r = (u', p')" by (cases r)
      from Cons.prems(1) False Inr r
      have rest: "linear_outer features centers xs u' p' = Inr ps" by simp
      from Inr r
      have inner: "linear_inner features centers i [i + 1..<length features] used pats = Inr (u', p')"
        by simp
      from Cons.prems(3) have "i < length features" by simp
      moreover have "\<forall>j\<in>set [i + 1..<length features]. j \<noteq> i \<and> j < length features" by auto
      ultimately have "linear_invariant features u' p'"
        using linear_inner_invariant [OF inner Cons.prems(2) False] by blast
      from Cons.IH [OF rest this rest_bound] show ?thesis .
    qed
  qed
qed

lemma linear_invariant_initial: "linear_invariant features {} []"
  unfolding linear_invariant_def by (rule exI [of _ "[]"]) simp

lemma linear_candidate_type:
  assumes "linear_candidate features centers used i j = Inr (Some (idxs, p))"
  shows "pattern_type p = LINEAR"
  using assms unfolding linear_candidate_def Let_def
  by (auto simp del: sort_key_simps split: if_splits)

lemma linear_inner_type:
  assumes "linear_inner features centers i js used pats = Inr (used', pats')"
    and "\<forall>p\<in>set pats. pattern_type p = LINEAR"
  shows "\<forall>p\<in>set pats'. pattern_type p = LINEAR"
  using assms
  by (induction js) (auto split: if_splits sum.splits option.splits dest: linear_candidate_type)

lemma linear_outer_type:
  assumes "linear_outer features centers xs used pats = Inr ps"
    and "\<forall>p\<in>set pats. pattern_type p = LINEAR"
  shows "\<forall>p\<in>set ps. pattern_type p = LINEAR"
  using assms
proof (induction xs arbitrary: used pats)
  case Nil
  then show ?case by simp
next
  case (Cons i xs)
  show ?case
  proof (cases "i \<in> used")
    case True
    with Cons.prems(1) have "linear_outer features centers xs used pats = Inr ps" by simp
    from Cons.IH [OF this Cons.prems(2)] show ?thesis .
  next
    case False
    show ?thesis
    proof (cases "linear_inner features centers i [i + 1..<length features] used pats")
      case (Inl e)
      with Cons.prems(1) False show ?thesis by simp
    next
      case (Inr r)
      obtain u' p' where r: "r = (u', p')" by (cases r)
      from Cons.prems(1) False Inr r
      have rest: "linear_outer features centers xs u' p' = Inr ps" by simp
      from Inr r
      have inner: "linear_inner features centers i [i + 1..<length features] used pats = Inr (u', p')"
        by simp
      from Cons.IH [OF rest linear_inner_type [OF inner Cons.prems(2)]] show ?thesis .
    qed
  qed
qed

lemma detect_linear_type:
  assumes "detect_linear_patterns features = Inr ps"
  shows "\<forall>p\<in>set ps. pattern_type p = LINEAR"
proof (cases "length features < MIN_PATTERN_COUNT")
  case True
  with assms show ?thesis by (simp add: detect_linear_patterns_def)
next
  case False
  with assms
  have "linear_outer features (map get_feature_center features) [0..<length features] {} [] = Inr ps"
    by (simp add: detect_linear_patterns_def)
  from linear_outer_type [OF this] show ?thesis by simp
qed

lemma ids_of_indices:
  assumes "distinct (map feature_id fs)" and "distinct idxs" and "set idxs \<subseteq> {..<length fs}"
  shows "distinct (map (\<lambda>k. feature_id (fs ! k)) idxs)"
    and "set (map (\<lambda>k. feature_id (fs ! k)) idxs) \<subseteq> feature_id ` set fs"
proof -
  have inj: "inj_on (\<lambda>k. feature_id (fs ! k)) (set idxs)"
  proof (rule inj_onI)
    fix x y
    assume x: "x \<in> set idxs" and y: "y \<in> set idxs"
      and e: "feature_id (fs ! x) = feature_id (fs ! y)"
    from x y assms(3) have xl: "x < length fs" and yl: "y < length fs" by auto
    from nth_eq_iff_index_eq [OF assms(1), of x y] xl yl e show "x = y" by simp
  qed
  show "distinct (map (\<lambda>k. feature_id (fs ! k)) idxs)"
    using assms(2) inj by (simp add: distinct_map)
  show "set (map (\<lambda>k. feature_id (fs ! k)) idxs) \<subseteq> feature_id ` set fs"
    using assms(3) by auto
qed

lemma detect_linear_ids:
  assumes "distinct (map feature_id features)"
    and "detect_linear_patterns features = Inr ps"
  shows "distinct (concat (map feature_ids ps))"
    and "set (concat (map feature_ids ps)) \<subseteq> feature_id ` set features"
proof -
  have "\<exists>used'. linear_invariant features used' ps"
  proof (cases "length features < MIN_PATTERN_COUNT")
    case True
    with assms(2) have "ps = []" by (simp add: detect_linear_patterns_def)
    then show ?thesis using linear_invariant_initial by blast
  next
    case False
    with assms(2)
    have "linear_outer features (map get_feature_center features) [0..<length features] {} [] = Inr ps"
      by (simp add: detect_linear_patterns_def)
    from linear_outer_invariant [OF this linear_invariant_initial] show ?thesis by simp
  qed
  then obtain used' where "linear_invariant features used' ps" ..
  then obtain idxss where
    a: "map feature_ids ps = map (map (\<lambda>k. feature_id (features ! k))) idxss"
    and b: "distinct (concat idxss)"
    and d: "set (concat idxss) \<subseteq> {..<length features}"
    unfolding linear_invariant_def by blast
  have eq: "concat (map feature_ids ps) = map (\<lambda>k. feature_id (features ! k)) (concat idxss)"
    unfolding a by (simp add: map_concat)
  show "distinct (concat (map feature_ids ps))"
    unfolding eq by (rule ids_of_indices(1) [OF assms(1) b d])
  show "set (concat (map feature_ids ps)) \<subseteq> feature_id ` set features"
    unfolding eq by (rule ids_of_indices(2) [OF assms(1) b d])
qed

lemma circular_members:
  assumes "distinct pf"
  shows "distinct (fold (\<lambda>m pf. if m \<in> set pf then pf else if C m then pf @ [m] else pf) ms pf)
         \<and> set (fold (\<lambda>m pf. if m \<in> set pf then pf else if C m then pf @ [m] else pf) ms pf)
             \<subseteq> set pf \<union> set ms"
  using assms
proof (induction ms arbitrary: pf)
  case Nil
  then show ?case by simp
next
  case (Cons m ms)
  define g where "g = (if m \<in> set pf then pf else if C m then pf @ [m] else pf)"
  have d: "distinct g" using Cons.prems by (simp add: g_def)
  have s: "set g \<subseteq> set pf \<union> {m}" by (auto simp: g_def)
  have e: "fold (\<lambda>m pf. if m \<in> set pf then pf else if C m then pf @ [m] else pf) (m # ms) pf
           = fold (\<lambda>m pf. if m \<in> set pf then pf else if C m then pf @ [m] else pf) ms g"
    by (simp add: g_def)
  from Cons.IH [OF d] s show ?case unfolding e by auto
qed

lemma circular_candidate_props:
  assumes "circular_candidate features centers i j k = Some p"
    and "i < j" and "j < k" and "k < length features"
  shows "pattern_type p = CIRCULAR
         \<and> (\<exists>idxs. feature_ids p = map (\<lambda>m. feature_id (features ! m)) idxs
               \<and> distinct idxs \<and> set idxs \<subseteq> {..<length features})"
proof -
  from assms(1) obtain cc where
    cc: "calculate_circle_center_3d (centers ! i) (centers ! j) (centers ! k) = Some cc"
    by (auto simp: circular_candidate_def split: option.splits)
  define idxs where "idxs = fold (\<lambda>m pf. if m \<in> set pf then pf
        else if \<bar>dist3 cc (centers ! m) - dist3 cc (centers ! i)\<bar> < POSITION_TOLERANCE
             then pf @ [m] else pf) [0..<length features] [i, j, k]"
  have start: "distinct [i, j, k]" using assms(2,3) by simp
  from circular_members [OF start, of "\<lambda>m. \<bar>dist3 cc (centers ! m) - dist3 cc (centers ! i)\<bar> < POSITION_TOLERANCE" "[0..<length features]"]
  have di: "distinct idxs" and si: "set idxs \<subseteq> set [i, j, k] \<union> set [0..<length features]"
    unfolding idxs_def by simp_all
  from si assms(2,3,4) have bound: "set idxs \<subseteq> {..<length features}" by auto
  from assms(1) have "pattern_type p = CIRCULAR
      \<and> feature_ids p = map (\<lambda>m. feature_id (features ! m)) idxs"
    unfolding circular_candidate_def cc option.case Let_def idxs_def [symmetric]
    by (auto split: if_splits)
  with di bound show ?thesis by blast
qed

lemma circular_k_props:
  assumes "circular_k features centers i j ks = Some p"
    and "i < j" and "\<forall>k\<in>set ks. j < k \<and> k < length features"
  shows "pattern_type p = CIRCULAR
         \<and> (\<exists>idxs. feature_ids p = map (\<lambda>m. feature_id (features ! m)) idxs
               \<and> distinct idxs \<and> set idxs \<subseteq> {..<length features})"
  using assms
proof (induction ks)
  case Nil
  then show ?case by simp
next
  case (Cons k ks)
  show ?case
  proof (cases "circular_candidate features centers i j k")
    case None
    with Cons show ?thesis by simp
  next
    case (Some q)
    with Cons.prems(1) have "q = p" by simp
    with Some Cons.prems(2,3) circular_candidate_props [of features centers i j k p]
    show ?thesis by simp
  qed
qed

lemma circular_j_props:
  assumes "circular_j features centers i js = Some p"
    and "\<forall>j\<in>set js. i < j"
  shows "pattern_type p = CIRCULAR
         \<and> (\<exists>idxs. feature_ids p = map (\<lambda>m. feature_id (features ! m)) idxs
               \<and> distinct idxs \<and> set idxs \<subseteq> {..<length features})"
  using assms
proof (induction js)
  case Nil
  then show ?case by simp
next
  case (Cons j js)
  show ?case
  proof (cases "circular_k features centers i j [j + 1..<length features]")
    case None
    with Cons show ?thesis by simp
  next
    case (Some q)
    with Cons.prems(1) have q: "q = p" by simp
    from Cons.prems(2) have ij: "i < j" by simp
    have "\<forall>k\<in>set [j + 1..<length features]. j < k \<and> k < length features" by auto
    from circular_k_props [OF Some [unfolded q] ij this] show ?thesis .
  qed
qed

lemma circular_i_props:
  assumes "circular_i features centers xs = Some p"
  shows "pattern_type p = CIRCULAR
         \<and> (\<exists>idxs. feature_ids p = map (\<lambda>m. feature_id (features ! m)) idxs
               \<and> distinct idxs \<and> set idxs \<subseteq> {..<length features})"
  using assms
proof (induction xs)
  case Nil
  then show ?case by simp
next
  case (Cons i xs)
  show ?case
  proof (cases "circular_j features centers i [i + 1..<length features]")
    case None
    with Cons show ?thesis by simp
  next
    case (Some q)
    with Cons.prems(1) have q: "q = p" by simp
    have "\<forall>j\<in>set [i + 1..<length features]. i < j" by auto
    from circular_j_props [OF Some [unfolded q] this] show ?thesis .
  qed
qed

lemma detect_circular_props:
  assumes "distinct (map feature_id features)"
  shows "detect_circular_patterns features = []
         \<or> (\<exists>p. detect_circular_patterns features = [p] \<and> pattern_type p = CIRCULAR
                \<and> distinct (feature_ids p) \<and> set (feature_ids p) \<subseteq> feature_id ` set features)"
proof (cases "detect_circular_patterns features")
  case Nil
  then show ?thesis by simp
next
  case (Cons p ps)
  then have ci: "circular_i features (map get_feature_center features) [0..<length features] = Some p"
    and ps: "ps = []"
    by (auto simp: detect_circular_patterns_def split: if_splits option.splits)
  from circular_i_props [OF ci] obtain idxs where
    ty: "pattern_type p = CIRCULAR"
    and ids: "feature_ids p = map (\<lambda>m. feature_id (features ! m)) idxs"
    and di: "distinct idxs" and bound: "set idxs \<subseteq> {..<length features}" by blast
  from ids_of_indices [OF assms di bound] ty Cons ps show ?thesis by (simp add: ids)
qed

lemma detect_grid_props:
  assumes "distinct (map feature_id features)"
  shows "detect_grid_patterns features = []
         \<or> (\<exists>p. detect_grid_patterns features = [p] \<and> pattern_type p = GRID
                \<and> distinct (feature_ids p) \<and> set (feature_ids p) \<subseteq> feature_id ` set features)"
proof -
  have all: "map (\<lambda>idx. feature_id (features ! idx)) [0..<length features] = map feature_id features"
    by (rule nth_equalityI) simp_all
  show ?thesis
    using assms unfolding detect_grid_patterns_def Let_def all
    by (auto split: prod.splits)
qed

lemma detect_mirror_type:
  "\<forall>p\<in>set (detect_mirror_patterns features). pattern_type p = MIRROR"
  by (auto simp: detect_mirror_patterns_def mirror_plane_patterns_def Let_def split: if_splits)

lemma group_patterns_of_type:
  assumes T: "T \<noteq> MIRROR"
    and d: "distinct (map feature_id fl)"
    and lin: "detect_linear_patterns fl = Inr lp"
  shows "distinct (concat (map feature_ids (filter (\<lambda>p. pattern_type p = T)
            (lp @ detect_circular_patterns fl @ detect_grid_patterns fl
                @ detect_mirror_patterns fl))))
         \<and> set (concat (map feature_ids (filter (\<lambda>p. pattern_type p = T)
            (lp @ detect_circular_patterns fl @ detect_grid_patterns fl
                @ detect_mirror_patterns fl)))) \<subseteq> feature_id ` set fl"
proof -
  have m: "filter (\<lambda>p. pattern_type p = T) (detect_mirror_patterns fl) = []"
    using detect_mirror_type [of fl] T by (auto simp: filter_empty_conv)
  have lt: "\<forall>p\<in>set lp. pattern_type p = LINEAR" by (rule detect_linear_type [OF lin])
  note li = detect_linear_ids [OF d lin]
  note ci = detect_circular_props [OF d]
  note gr = detect_grid_props [OF d]
  show ?thesis
  proof (cases "T = LINEAR")
    case True
    have "filter (\<lambda>p. pattern_type p = T) lp = lp" using lt True by simp
    moreover have "filter (\<lambda>p. pattern_type p = T) (detect_circular_patterns fl) = []"
      using ci True by auto
    moreover have "filter (\<lambda>p. pattern_type p = T) (detect_grid_patterns fl) = []"
      using gr True by auto
    ultimately show ?thesis using li m by simp
  next
    case False
    then have l0: "filter (\<lambda>p. pattern_type p = T) lp = []"
      using lt by (auto simp: filter_empty_conv)
    show ?thesis
    proof (cases "T = CIRCULAR")
      case True
      have "filter (\<lambda>p. pattern_type p = T) (detect_grid_patterns fl) = []"
        using gr True by auto
      then show ?thesis using ci l0 m by auto
    next
      case nc: False
      have c0: "filter (\<lambda>p. pattern_type p = T) (detect_circular_patterns fl) = []"
        using ci nc by auto
      show ?thesis using gr l0 c0 m by auto
    qed
  qed
qed

lemma recognize_groups_of_type:
  assumes "recognize_groups gs pats = Inr ps" and "T \<noteq> MIRROR"
    and "distinct (map feature_id (concat (map snd gs)))"
    and "distinct (concat (map feature_ids (filter (\<lambda>p. pattern_type p = T) pats)))"
    and "set (concat (map feature_ids (filter (\<lambda>p. pattern_type p = T) pats)))
           \<inter> feature_id ` set (concat (map snd gs)) = {}"
  shows "distinct (concat (map feature_ids (filter (\<lambda>p. pattern_type p = T) ps)))"
  using assms
proof (induction gs arbitrary: pats)
  case Nil
  then show ?case by simp
next
  case (Cons g gs)
  obtain t fl where g: "g = (t, fl)" by (cases g)
  from Cons.prems(3) have dfl: "distinct (map feature_id fl)"
    and drest: "distinct (map feature_id (concat (map snd gs)))"
    and apart: "feature_id ` set fl \<inter> feature_id ` set (concat (map snd gs)) = {}"
    by (auto simp: g)
  from Cons.prems(5) have old_fl: "set (concat (map feature_ids (filter (\<lambda>p. pattern_type p = T) pats)))
           \<inter> feature_id ` set fl = {}"
    and old_rest: "set (concat (map feature_ids (filter (\<lambda>p. pattern_type p = T) pats)))
           \<inter> feature_id ` set (concat (map snd gs)) = {}"
    by (auto simp: g)
  show ?case
  proof (cases "length fl < MIN_PATTERN_COUNT")
    case True
    with Cons.prems(1) have "recognize_groups gs pats = Inr ps" by (simp add: g)
    from Cons.IH [OF this Cons.prems(2) drest Cons.prems(4) old_rest] show ?thesis .
  next
    case False
    show ?thesis
    proof (cases "detect_linear_patterns fl")
      case (Inl e)
      with Cons.prems(1) False show ?thesis by (simp add: g)
    next
      case (Inr lp)
      let ?new = "lp @ detect_circular_patterns fl @ detect_grid_patterns fl
                    @ detect_mirror_patterns fl"
      from Cons.prems(1) False Inr
      have rest: "recognize_groups gs (pats @ ?new) = Inr ps" by (simp add: g)
      from group_patterns_of_type [OF Cons.prems(2) dfl Inr]
      have nd: "distinct (concat (map feature_ids (filter (\<lambda>p. pattern_type p = T) ?new)))"
        and ns: "set (concat (map feature_ids (filter (\<lambda>p. pattern_type p = T) ?new)))
                   \<subseteq> feature_id ` set fl" by simp_all
      have d': "distinct (concat (map feature_ids (filter (\<lambda>p. pattern_type p = T) (pats @ ?new))))"
        using Cons.prems(4) nd ns old_fl by (simp only: filter_append map_append concat_append distinct_append) blast
      have s': "set (concat (map feature_ids (filter (\<lambda>p. pattern_type p = T) (pats @ ?new))))
                  \<inter> feature_id ` set (concat (map snd gs)) = {}"
        using ns old_rest apart by (simp only: filter_append map_append concat_append set_append) blast
      from Cons.IH [OF rest Cons.prems(2) drest d' s'] show ?thesis .
    qed
  qed
qed

lemma add_to_type_group_members:
  "set (concat (map snd (add_to_type_group f gs))) = insert f (set (concat (map snd gs)))"
proof (induction gs)
  case Nil
  show ?case by simp
next
  case (Cons g gs)
  obtain t fl where g: "g = (t, fl)" by (cases g)
  show ?case
  proof (cases "feature_type f = t")
    case True
    then have "concat (map snd (add_to_type_group f (g # gs))) = fl @ f # concat (map snd gs)"
      by (simp add: g)
    then show ?thesis by (auto simp: g)
  next
    case False
    then have "concat (map snd (add_to_type_group f (g # gs)))
                  = fl @ concat (map snd (add_to_type_group f gs))"
      by (simp add: g)
    then have "set (concat (map snd (add_to_type_group f (g # gs))))
                  = set fl \<union> insert f (set (concat (map snd gs)))"
      using Cons.IH by (simp only: set_append)
    then show ?thesis by (auto simp: g)
  qed
qed

lemma add_to_type_group_ids:
  "distinct (map feature_id (concat (map snd (add_to_type_group f gs))))
     = (distinct (map feature_id (concat (map snd gs)))
        \<and> feature_id f \<notin> feature_id ` set (concat (map snd gs)))"
proof (induction gs)
  case Nil
  show ?case by simp
next
  case (Cons g gs)
  obtain t fl where g: "g = (t, fl)" by (cases g)
  show ?case
  proof (cases "feature_type f = t")
    case True
    then have "concat (map snd (add_to_type_group f (g # gs))) = fl @ f # concat (map snd gs)"
      by (simp add: g)
    then show ?thesis by (auto simp: g)
  next
    case False
    then have e: "concat (map snd (add_to_type_group f (g # gs)))
                  = fl @ concat (map snd (add_to_type_group f gs))"
      by (simp add: g)
    have m: "set (concat (map snd (add_to_type_group f gs))) = insert f (set (concat (map snd gs)))"
      by (rule add_to_type_group_members)
    show ?thesis
      unfolding e map_append distinct_append Cons.IH set_map m
      by (auto simp: g)
  qed
qed

lemma fold_add_to_type_group_ids:
  assumes "distinct (map feature_id (concat (map snd gs)) @ map feature_id fs)"
  shows "distinct (map feature_id (concat (map snd (fold add_to_type_group fs gs))))"
  using assms
proof (induction fs arbitrary: gs)
  case Nil
  then show ?case by simp
next
  case (Cons f fs)
  have "distinct (map feature_id (concat (map snd (add_to_type_group f gs))) @ map feature_id fs)"
    using Cons.prems
    unfolding distinct_append add_to_type_group_ids set_map add_to_type_group_members
    by auto
  from Cons.IH [OF this] show ?case by simp
qed

text \<open>
  Claim C2, as amended. When the features have pairwise distinct ids and
  \<^verbatim>\<open>recognize_all_patterns\<close> returns, no feature id occurs twice among the returned patterns
  of one type, for every pattern type other than \<^verbatim>\<open>MIRROR\<close>: a feature belongs to at most one
  linear, at most one circular and at most one grid pattern. Patterns of different types
  are not kept apart, since the results of the four detectors are concatenated.
\<close>

theorem patterns_of_one_type_disjoint:
  assumes "distinct (map feature_id features)"
    and "recognize_all_patterns features = Inr ps"
    and "T \<noteq> MIRROR"
  shows "distinct (concat (map feature_ids (filter (\<lambda>p. pattern_type p = T) ps)))"
proof -
  have "distinct (map feature_id (concat (map snd (group_features_by_type features))))"
    unfolding group_features_by_type_def
    by (rule fold_add_to_type_group_ids) (simp add: assms(1))
  from recognize_groups_of_type [OF assms(2) [unfolded recognize_all_patterns_def] assms(3) this]
  show ?thesis by simp
qed

theorem patterns_of_one_type_disjoint_witness:
  "distinct (map feature_id
     [\<lparr>feature_id = 1, feature_type = ''Through Hole'', geometry_center = Some (10, 0, 0)\<rparr>,
      \<lparr>feature_id = 2, feature_type = ''Through Hole'', geometry_center = Some (- 10, 0, 0)\<rparr>,
      \<lparr>feature_id = 3, feature_type = ''Slot'', geometry_center = Some (0, 50, 0)\<rparr>,
      \<lparr>feature_id = 4, feature_type = ''Slot'', geometry_center = Some (0, 60, 0)\<rparr>])
   \<and> recognize_all_patterns
     [\<lparr>feature_id = 1, feature_type = ''Through Hole'', geometry_center = Some (10, 0, 0)\<rparr>,
      \<lparr>feature_id = 2, feature_type = ''Through Hole'', geometry_center = Some (- 10, 0, 0)\<rparr>,
      \<lparr>feature_id = 3, feature_type = ''Slot'', geometry_center = Some (0, 50, 0)\<rparr>,
      \<lparr>feature_id = 4, feature_type = ''Slot'', geometry_center = Some (0, 60, 0)\<rparr>] =
     Inr [\<lparr>pattern_type = LINEAR, feature_ids = [1, 2], pattern_count = 2, spacing = 20,
           angle = 0, center = None, direction = Some (Vec (- 1, 0, 0)), confidence = 1\<rparr>,
          \<lparr>pattern_type = MIRROR, feature_ids = [1, 2], pattern_count = 2, spacing = 0,
           angle = 0, center = None, direction = Some (PlaneName ''YZ''),
           confidence = 85 / 100\<rparr>,
          \<lparr>pattern_type = LINEAR, feature_ids = [3, 4], pattern_count = 2, spacing = 10,
           angle = 0, center = None, direction = Some (Vec (0, 1, 0)), confidence = 1\<rparr>]
   \<and> LINEAR \<noteq> MIRROR
   \<and> distinct (concat (map feature_ids (filter (\<lambda>p. pattern_type p = LINEAR)
         [\<lparr>pattern_type = LINEAR, feature_ids = [1, 2], pattern_count = 2, spacing = 20,
           angle = 0, center = None, direction = Some (Vec (- 1, 0, 0)), confidence = 1\<rparr>,
          \<lparr>pattern_type = MIRROR, feature_ids = [1, 2], pattern_count = 2, spacing = 0,
           angle = 0, center = None, direction = Some (PlaneName ''YZ''),
           confidence = 85 / 100\<rparr>,
          \<lparr>pattern_type = LINEAR, feature_ids = [3, 4], pattern_count = 2, spacing = 10,
           angle = 0, center = None, direction = Some (Vec (0, 1, 0)), confidence = 1\<rparr>])))"
proof -
  let ?fs = "[\<lparr>feature_id = 1, feature_type = ''Through Hole'', geometry_center = Some (10, 0, 0)\<rparr>,
      \<lparr>feature_id = 2, feature_type = ''Through Hole'', geometry_center = Some (- 10, 0, 0)\<rparr>,
      \<lparr>feature_id = 3, feature_type = ''Slot'', geometry_center = Some (0, 50, 0)\<rparr>,
      \<lparr>feature_id = 4, feature_type = ''Slot'', geometry_center = Some (0, 60, 0)\<rparr>]"
  let ?ps = "[\<lparr>pattern_type = LINEAR, feature_ids = [1, 2], pattern_count = 2, spacing = 20,
           angle = 0, center = None, direction = Some (Vec (- 1, 0, 0)), confidence = 1\<rparr>,
          \<lparr>pattern_type = MIRROR, feature_ids = [1, 2], pattern_count = 2, spacing = 0,
           angle = 0, center = None, direction = Some (PlaneName ''YZ''),
           confidence = 85 / 100\<rparr>,
          \<lparr>pattern_type = LINEAR, feature_ids = [3, 4], pattern_count = 2, spacing = 10,
           angle = 0, center = None, direction = Some (Vec (0, 1, 0)), confidence = 1\<rparr>]"
  have d: "distinct (map feature_id ?fs)" by simp
  have e: "recognize_all_patterns ?fs = Inr ?ps"
    by (simp add: all_eval linear_eval upt_small)
  have t: "LINEAR \<noteq> MIRROR" by simp
  from patterns_of_one_type_disjoint [OF d e t] d e show ?thesis by simp
qed

text \<open>
  The mirror patterns have to be left out: there is one per plane, and the three of them
  can hold the same features. Two features at the same place are mirror images of each
  other in all three planes.
\<close>

lemma mirror_patterns_share_features:
  "recognize_all_patterns
     [\<lparr>feature_id = 1, feature_type = ''Slot'', geometry_center = None\<rparr>,
      \<lparr>feature_id = 2, feature_type = ''Slot'', geometry_center = None\<rparr>] =
   Inr [\<lparr>pattern_type = MIRROR, feature_ids = [1, 2], pattern_count = 2, spacing = 0,
         angle = 0, center = None, direction = Some (PlaneName ''XY''),
         confidence = 85 / 100\<rparr>,
        \<lparr>pattern_type = MIRROR, feature_ids = [1, 2], pattern_count = 2, spacing = 0,
         angle = 0, center = None, direction = Some (PlaneName ''XZ''),
         confidence = 85 / 100\<rparr>,
        \<lparr>pattern_type = MIRROR, feature_ids = [1, 2], pattern_count = 2, spacing = 0,
         angle = 0, center = None, direction = Some (PlaneName ''YZ''),
         confidence = 85 / 100\<rparr>]"
  by (simp add: all_eval linear_eval upt_small)

end
